theory Spec2Isabelle
  imports Main
begin

section \<open>JavaScript values seen by the component\<close>

text \<open>
  The component \<^verbatim>\<open>OCRUploader\<close> (src/frontend/src/components/OCRUploader.jsx) reads
  the parsed JSON body of a response, takes the properties \<^verbatim>\<open>detail\<close> and
  \<^verbatim>\<open>text\<close> of it, tests values for truthiness (\<^verbatim>\<open>||\<close>, \<^verbatim>\<open>&&\<close>, \<^verbatim>\<open>!\<close>) and turns
  them into strings (\<^verbatim>\<open>new Error(v)\<close>, template literals). A value is what
  \<^verbatim>\<open>JSON.parse\<close> can produce, or \<^verbatim>\<open>undefined\<close> (a missing property). Numbers are the
  integers, which ToString writes in decimal digits (as JavaScript does below 10^21); an
  object is the list of its properties, the first entry of a key being its value.
\<close>

datatype jsval =
    JUndefined
  | JNull
  | JBool bool
  | JNum int
  | JStr string
  | JArr "jsval list"
  | JObj "(string \<times> jsval) list"

text \<open>ToBoolean.\<close>

fun truthy :: "jsval \<Rightarrow> bool" where
  "truthy JUndefined = False"
| "truthy JNull = False"
| "truthy (JBool b) = b"
| "truthy (JNum n) = (n \<noteq> 0)"
| "truthy (JStr s) = (s \<noteq> [])"
| "truthy (JArr xs) = True"
| "truthy (JObj kvs) = True"

text \<open>\<^verbatim>\<open>a || b\<close>\<close>

definition js_or :: "jsval \<Rightarrow> jsval \<Rightarrow> jsval" where
  "js_or a b = (if truthy a then a else b)"

text \<open>Decimal digits of a number, as \<^verbatim>\<open>${res.status}\<close> writes them.\<close>

definition digit_char :: "nat \<Rightarrow> char" where
  "digit_char d = ''0123456789'' ! d"

fun show_nat :: "nat \<Rightarrow> string" where
  "show_nat n = (if n < 10 then [digit_char n] else show_nat (n div 10) @ [digit_char (n mod 10)])"

definition show_int :: "int \<Rightarrow> string" where
  "show_int i = (if i < 0 then CHR ''-'' # show_nat (nat (- i)) else show_nat (nat i))"

fun join_comma :: "string list \<Rightarrow> string" where
  "join_comma [] = []"
| "join_comma [s] = s"
| "join_comma (s # t # ss) = s @ '','' @ join_comma (t # ss)"

text \<open>
  ToString. An array is its elements joined by commas, \<^verbatim>\<open>null\<close> and \<^verbatim>\<open>undefined\<close>
  elements being empty; a plain object is \<^verbatim>\<open>[object Object]\<close>.
\<close>

fun to_string :: "jsval \<Rightarrow> string" where
  "to_string JUndefined = ''undefined''"
| "to_string JNull = ''null''"
| "to_string (JBool b) = (if b then ''true'' else ''false'')"
| "to_string (JNum n) = show_int n"
| "to_string (JStr s) = s"
| "to_string (JArr xs) =
     join_comma (map (\<lambda>x. if x = JNull \<or> x = JUndefined then [] else to_string x) xs)"
| "to_string (JObj kvs) = ''[object Object]''"

text \<open>
  \<^verbatim>\<open>v.p\<close> for a property \<^verbatim>\<open>p\<close> that no built-in prototype has (\<^verbatim>\<open>detail\<close>,
  \<^verbatim>\<open>text\<close>): the property of an object, \<^verbatim>\<open>undefined\<close> on any other value, and
  a TypeError on \<^verbatim>\<open>null\<close> and \<^verbatim>\<open>undefined\<close> (its message in the wording of V8; no
  property below depends on the wording). An exception is the \<^verbatim>\<open>message\<close> of the
  thrown Error: the handlers read nothing else of it.
\<close>

definition type_error_msg :: "jsval \<Rightarrow> string \<Rightarrow> string" where
  "type_error_msg v p =
     ''Cannot read properties of '' @ to_string v @ '' (reading '' @ [CHR 0x27] @ p @ [CHR 0x27] @ '')''"

fun get_prop :: "jsval \<Rightarrow> string \<Rightarrow> string + jsval" where
  "get_prop JUndefined p = Inl (type_error_msg JUndefined p)"
| "get_prop JNull p = Inl (type_error_msg JNull p)"
| "get_prop (JObj kvs) p = Inr (case map_of kvs p of None \<Rightarrow> JUndefined | Some v \<Rightarrow> v)"
| "get_prop v p = Inr JUndefined"

section \<open>Files, responses and what the handlers do\<close>

record jsfile =
  name :: string
  content :: string

text \<open>
  What the environment decides about a response: its status code, how \<^verbatim>\<open>res.json()\<close>
  settles and how \<^verbatim>\<open>res.blob()\<close> settles (\<open>Inl\<close> is a rejection, with the message of
  the error). \<^verbatim>\<open>fetch\<close> itself settles with a response or rejects.
\<close>

record response =
  res_status :: nat
  res_json :: "string + jsval"
  res_blob :: "string + string"

type_synonym fetch_outcome = "string + response"

text \<open>\<^verbatim>\<open>res.ok\<close>: the status is in the range 200-299.\<close>

definition res_ok :: "response \<Rightarrow> bool" where
  "res_ok r = (200 \<le> res_status r \<and> res_status r \<le> 299)"

text \<open>The five \<^verbatim>\<open>useState\<close> cells of the component.\<close>

record ui =
  loading :: bool
  isDownloading :: bool
  status :: string
  "text" :: jsval
  originalFile :: "jsfile option"

text \<open>
  What a handler does, in the order of the source: the calls of the five state setters and
  the effects on the world outside the component (the request, the console, the object
  URL and the anchor element that triggers the save). \<open>Fetch url field f\<close> is the POST of
  a form whose field \<open>field\<close> holds \<open>f\<close>; \<open>CreateObjectURL b u\<close> is the call on blob
  \<open>b\<close> that returned the URL \<open>u\<close>.
\<close>

datatype action =
    SetLoading bool
  | SetIsDownloading bool
  | SetStatus string
  | SetText jsval
  | SetOriginalFile "jsfile option"
  | Fetch string string jsfile
  | ConsoleError string string
  | CreateObjectURL string string
  | CreateElement string
  | SetHref string
  | SetDownload string
  | AppendChild
  | Click
  | Remove
  | RevokeObjectURL string

fun perform :: "action \<Rightarrow> ui \<Rightarrow> ui" where
  "perform (SetLoading b) st = st\<lparr>loading := b\<rparr>"
| "perform (SetIsDownloading b) st = st\<lparr>isDownloading := b\<rparr>"
| "perform (SetStatus m) st = st\<lparr>status := m\<rparr>"
| "perform (SetText v) st = st\<lparr>text := v\<rparr>"
| "perform (SetOriginalFile fo) st = st\<lparr>originalFile := fo\<rparr>"
| "perform a st = st"

definition exec :: "action list \<Rightarrow> ui \<Rightarrow> ui" where
  "exec acts st = fold perform acts st"

subsection \<open>handleUpload\<close>

text \<open>
  Lines 11-27: up to the call of \<^verbatim>\<open>fetch\<close>, where the handler is suspended. No file
  selected: the handler returns at once.
\<close>

definition handleUpload_start :: "jsfile option \<Rightarrow> action list" where
  "handleUpload_start fo =
     (case fo of
        None \<Rightarrow> []
      | Some f \<Rightarrow>
          [SetLoading True,
           SetStatus (''Processing '' @ name f @ ''...''),
           SetText (JStr []),
           SetOriginalFile None,
           Fetch ''http://localhost:8000/extract-text'' ''file'' f])"

text \<open>
  Lines 24-39, the rest of the \<^verbatim>\<open>try\<close> block once the request has settled: \<open>Inl m\<close> when
  it throws an error of message \<open>m\<close>, the setter calls otherwise. The body is parsed
  first, whatever the status; nothing is set before the last point that can throw.
\<close>

definition handleUpload_try :: "jsfile \<Rightarrow> fetch_outcome \<Rightarrow> string + action list" where
  "handleUpload_try f out =
     (case out of
        Inl m \<Rightarrow> Inl m
      | Inr res \<Rightarrow>
          (case res_json res of
             Inl m \<Rightarrow> Inl m
           | Inr data \<Rightarrow>
               if \<not> res_ok res then
                 (case get_prop data ''detail'' of
                    Inl m \<Rightarrow> Inl m
                  | Inr d \<Rightarrow>
                      Inl (to_string
                        (js_or d (JStr (''Server error: '' @ show_nat (res_status res))))))
               else
                 (case get_prop data ''text'' of
                    Inl m \<Rightarrow> Inl m
                  | Inr t \<Rightarrow>
                      Inr [SetText t,
                           SetStatus ''Success! Text extracted.'',
                           SetOriginalFile (Some f)])))"

text \<open>Lines 22-46: the \<^verbatim>\<open>try\<close> block with its \<^verbatim>\<open>catch\<close> and \<^verbatim>\<open>finally\<close>.\<close>

definition handleUpload_settle :: "jsfile \<Rightarrow> fetch_outcome \<Rightarrow> action list" where
  "handleUpload_settle f out =
     (case handleUpload_try f out of
        Inl m \<Rightarrow> [ConsoleError ''Upload failed:'' m, SetStatus (''Error: '' @ m)]
      | Inr acts \<Rightarrow> acts)
     @ [SetLoading False]"

subsection \<open>handleDownload\<close>

text \<open>
  Lines 50-63, on the \<^verbatim>\<open>originalFile\<close> of the render whose button was clicked.
\<close>

definition handleDownload_start :: "jsfile option \<Rightarrow> action list" where
  "handleDownload_start fo =
     (case fo of
        None \<Rightarrow> []
      | Some f \<Rightarrow>
          [SetIsDownloading True,
           SetStatus ''Preparing download...'',
           Fetch ''http://localhost:8000/extract-docx'' ''file'' f])"

text \<open>
  Lines 60-81. On a status outside 200-299 a body that does not parse counts as the
  empty object; \<open>u\<close> is the URL that \<^verbatim>\<open>createObjectURL\<close> returns.
\<close>

definition handleDownload_try :: "fetch_outcome \<Rightarrow> string \<Rightarrow> string + action list" where
  "handleDownload_try out u =
     (case out of
        Inl m \<Rightarrow> Inl m
      | Inr res \<Rightarrow>
          if \<not> res_ok res then
            (case get_prop (case res_json res of Inl m \<Rightarrow> JObj [] | Inr d \<Rightarrow> d) ''detail'' of
               Inl m \<Rightarrow> Inl m
             | Inr errorDetail \<Rightarrow>
                 Inl (to_string
                   (js_or errorDetail (JStr (''Server error: '' @ show_nat (res_status res))))))
          else
            (case res_blob res of
               Inl m \<Rightarrow> Inl m
             | Inr blob \<Rightarrow>
                 Inr [CreateObjectURL blob u,
                      CreateElement ''a'',
                      SetHref u,
                      SetDownload ''extracted_text.docx'',
                      AppendChild,
                      Click,
                      Remove,
                      RevokeObjectURL u,
                      SetStatus ''Success! File downloaded.'']))"

definition handleDownload_settle :: "fetch_outcome \<Rightarrow> string \<Rightarrow> action list" where
  "handleDownload_settle out u =
     (case handleDownload_try out u of
        Inl m \<Rightarrow> [ConsoleError ''Download failed:'' m, SetStatus (''Error: '' @ m)]
      | Inr acts \<Rightarrow> acts)
     @ [SetIsDownloading False]"

subsection \<open>What is rendered\<close>

text \<open>
  Lines 91-129: the file input with its \<^verbatim>\<open>disabled\<close> flag, the status paragraph (with
  whether it is styled as an error), the download button (with its \<^verbatim>\<open>disabled\<close> flag
  and label) and the text area (with its value), each present or not.
\<close>

definition starts_with :: "string \<Rightarrow> string \<Rightarrow> bool" where
  "starts_with s p = (take (length p) s = p)"

record button =
  btn_disabled :: bool
  btn_label :: string

record view =
  input_disabled :: bool
  status_line :: "(string \<times> bool) option"
  download_button :: "button option"
  textarea :: "string option"

definition render :: "ui \<Rightarrow> view" where
  "render st =
     \<lparr>input_disabled = (loading st \<or> isDownloading st),
      status_line =
        (if status st \<noteq> [] then Some (status st, starts_with (status st) ''Error:'') else None),
      download_button =
        (if truthy (text st) \<and> \<not> loading st then
           Some \<lparr>btn_disabled = isDownloading st,
                 btn_label = (if isDownloading st then ''Downloading...'' else ''Download as .docx'')\<rparr>
         else None),
      textarea = (if truthy (text st) then Some (to_string (text st)) else None)\<rparr>"

text \<open>The button can be clicked: it is rendered and not disabled.\<close>

definition download_enabled :: "view \<Rightarrow> bool" where
  "download_enabled v =
     (case download_button v of None \<Rightarrow> False | Some b \<Rightarrow> \<not> btn_disabled b)"

text \<open>The text the user reads in the text area: none when it is not rendered.\<close>

definition displayed_text :: "view \<Rightarrow> string" where
  "displayed_text v = (case textarea v of None \<Rightarrow> [] | Some t \<Rightarrow> t)"

section \<open>The component in the event loop\<close>

text \<open>
  A handler runs to its next \<^verbatim>\<open>await\<close> without interruption, so the states that an
  event or a render can see are those between such runs. Besides the five cells the
  system holds the suspended handlers, each with the file of its closure, and the trace of
  everything done so far. A handler that waits for the request and then for the body
  touches no cell in between; it is resumed here once, when both have settled.
\<close>

record sys =
  comp :: ui
  upload_pending :: "jsfile option"
  download_pending :: "jsfile option"
  trace :: "action list"

definition init_ui :: ui where
  "init_ui = \<lparr>loading = False, isDownloading = False, status = [], text = JStr [],
              originalFile = None\<rparr>"

definition init_sys :: sys where
  "init_sys = \<lparr>comp = init_ui, upload_pending = None, download_pending = None, trace = []\<rparr>"

definition call_handleUpload :: "jsfile option \<Rightarrow> sys \<Rightarrow> sys" where
  "call_handleUpload fo s =
     (case fo of
        None \<Rightarrow> s
      | Some f \<Rightarrow>
          s\<lparr>comp := exec (handleUpload_start fo) (comp s),
            upload_pending := Some f,
            trace := trace s @ handleUpload_start fo\<rparr>)"

definition resume_handleUpload :: "fetch_outcome \<Rightarrow> sys \<Rightarrow> sys" where
  "resume_handleUpload out s =
     (case upload_pending s of
        None \<Rightarrow> s
      | Some f \<Rightarrow>
          s\<lparr>comp := exec (handleUpload_settle f out) (comp s),
            upload_pending := None,
            trace := trace s @ handleUpload_settle f out\<rparr>)"

definition call_handleDownload :: "sys \<Rightarrow> sys" where
  "call_handleDownload s =
     (case originalFile (comp s) of
        None \<Rightarrow> s
      | Some f \<Rightarrow>
          s\<lparr>comp := exec (handleDownload_start (originalFile (comp s))) (comp s),
            download_pending := Some f,
            trace := trace s @ handleDownload_start (originalFile (comp s))\<rparr>)"

definition resume_handleDownload :: "fetch_outcome \<Rightarrow> string \<Rightarrow> sys \<Rightarrow> sys" where
  "resume_handleDownload out u s =
     (case download_pending s of
        None \<Rightarrow> s
      | Some f \<Rightarrow>
          s\<lparr>comp := exec (handleDownload_settle out u) (comp s),
            download_pending := None,
            trace := trace s @ handleDownload_settle out u\<rparr>)"

text \<open>
  The events: the user picks a file in the input (\<^verbatim>\<open>onChange\<close>), the user clicks the
  download button (\<^verbatim>\<open>onClick\<close>), the request of the suspended upload or download
  settles. A disabled input and an absent or disabled button deliver no event.
\<close>

datatype event =
    Change "jsfile option"
  | ClickDownload
  | UploadSettled fetch_outcome
  | DownloadSettled fetch_outcome string

fun step :: "event \<Rightarrow> sys \<Rightarrow> sys" where
  "step (Change fo) s =
     (if input_disabled (render (comp s)) then s else call_handleUpload fo s)"
| "step ClickDownload s =
     (if download_enabled (render (comp s)) then call_handleDownload s else s)"
| "step (UploadSettled out) s = resume_handleUpload out s"
| "step (DownloadSettled out u) s = resume_handleDownload out u s"

definition run :: "event list \<Rightarrow> sys" where
  "run evs = foldl (\<lambda>s e. step e s) init_sys evs"

section \<open>Properties of traces and of the system\<close>

text \<open>An action that issues a request.\<close>

fun is_fetch :: "action \<Rightarrow> bool" where
  "is_fetch (Fetch url field f) = True"
| "is_fetch a = False"

text \<open>
  The file of the latest request to the text-extraction endpoint in a trace, if there is
  one.
\<close>

fun upload_file_of :: "action \<Rightarrow> jsfile option" where
  "upload_file_of (Fetch url field f) =
     (if url = ''http://localhost:8000/extract-text'' then Some f else None)"
| "upload_file_of a = None"

definition last_upload :: "action list \<Rightarrow> jsfile option" where
  "last_upload tr = fold (\<lambda>a acc. case upload_file_of a of None \<Rightarrow> acc | Some f \<Rightarrow> Some f) tr None"

text \<open>
  What holds between two events: each busy flag is set exactly while its handler is
  suspended, the two handlers are never suspended together, a text that is truthy comes
  with a remembered file, both are cleared while an upload is suspended, and a suspended
  download works on the remembered file of a text that is shown.
\<close>

definition sys_inv :: "sys \<Rightarrow> bool" where
  "sys_inv s =
     (loading (comp s) = (upload_pending s \<noteq> None) \<and>
      isDownloading (comp s) = (download_pending s \<noteq> None) \<and>
      \<not> (loading (comp s) \<and> isDownloading (comp s)) \<and>
      (truthy (text (comp s)) \<longrightarrow> originalFile (comp s) \<noteq> None) \<and>
      (upload_pending s \<noteq> None \<longrightarrow> text (comp s) = JStr [] \<and> originalFile (comp s) = None) \<and>
      (download_pending s \<noteq> None \<longrightarrow>
         truthy (text (comp s)) \<and> download_pending s = originalFile (comp s)))"

text \<open>
  The file of a suspended upload and the remembered file are the file of the latest
  text-extraction request.
\<close>

definition files_inv :: "sys \<Rightarrow> bool" where
  "files_inv s =
     ((\<forall>f. upload_pending s = Some f \<longrightarrow> last_upload (trace s) = Some f) \<and>
      (\<forall>f. originalFile (comp s) = Some f \<longrightarrow> last_upload (trace s) = Some f))"

section \<open>Running a handler\<close>

lemma exec_Nil [simp]: "exec [] st = st"
  by (simp add: exec_def)

lemma exec_Cons [simp]: "exec (a # acts) st = exec acts (perform a st)"
  by (simp add: exec_def)

lemma exec_append: "exec (xs @ ys) st = exec ys (exec xs st)"
  by (simp add: exec_def)

lemma exec_upload_start:
  "exec (handleUpload_start (Some f)) st =
     st\<lparr>loading := True, status := ''Processing '' @ name f @ ''...'', text := JStr [],
        originalFile := None\<rparr>"
  by (simp add: handleUpload_start_def)

lemma exec_download_start:
  "exec (handleDownload_start (Some f)) st =
     st\<lparr>isDownloading := True, status := ''Preparing download...''\<rparr>"
  by (simp add: handleDownload_start_def)

lemma upload_try_shape:
  "(\<exists>m. handleUpload_try f out = Inl m) \<or>
   (\<exists>t. handleUpload_try f out =
      Inr [SetText t, SetStatus ''Success! Text extracted.'', SetOriginalFile (Some f)])"
  by (simp add: handleUpload_try_def split: sum.splits)

lemma exec_upload_settle_error:
  "handleUpload_try f out = Inl m \<Longrightarrow>
   exec (handleUpload_settle f out) st = st\<lparr>status := ''Error: '' @ m, loading := False\<rparr>"
  by (simp add: handleUpload_settle_def)

lemma upload_settle_success_env:
  assumes "handleUpload_try f out = Inr acts"
  shows "\<exists>res data t. out = Inr res \<and> res_ok res \<and> res_json res = Inr data \<and>
           get_prop data ''text'' = Inr t \<and>
           exec (handleUpload_settle f out) st =
             st\<lparr>text := t, status := ''Success! Text extracted.'', originalFile := Some f,
                loading := False\<rparr>"
  using assms
  by (auto simp add: handleUpload_settle_def handleUpload_try_def split: sum.splits if_splits)

lemma download_try_shape:
  "(\<exists>m. handleDownload_try out u = Inl m) \<or>
   (\<exists>b. handleDownload_try out u =
      Inr [CreateObjectURL b u, CreateElement ''a'', SetHref u,
           SetDownload ''extracted_text.docx'', AppendChild, Click, Remove,
           RevokeObjectURL u, SetStatus ''Success! File downloaded.''])"
  by (simp add: handleDownload_try_def split: sum.splits)

lemma exec_download_settle:
  "\<exists>m. exec (handleDownload_settle out u) st = st\<lparr>status := m, isDownloading := False\<rparr>"
  using download_try_shape [of out u]
  by (auto simp add: handleDownload_settle_def)

lemma upload_settle_no_fetch: "\<forall>a \<in> set (handleUpload_settle f out). \<not> is_fetch a"
  using upload_try_shape [of f out] by (auto simp add: handleUpload_settle_def)

lemma download_settle_no_fetch: "\<forall>a \<in> set (handleDownload_settle out u). \<not> is_fetch a"
  using download_try_shape [of out u] by (auto simp add: handleDownload_settle_def)

section \<open>Invariants of the event loop\<close>

lemma run_snoc: "run (evs @ [e]) = step e (run evs)"
  by (simp add: run_def)

lemma sys_inv_init: "sys_inv init_sys"
  by (simp add: sys_inv_def init_sys_def init_ui_def)

lemma sys_inv_Change:
  assumes "sys_inv s"
  shows "sys_inv (step (Change fo) s)"
proof (cases "input_disabled (render (comp s))")
  case True
  then show ?thesis using assms by simp
next
  case False
  show ?thesis
  proof (cases fo)
    case None
    then show ?thesis using assms False by (simp add: call_handleUpload_def)
  next
    case (Some f)
    then show ?thesis
      using assms False
      by (simp add: call_handleUpload_def exec_upload_start sys_inv_def render_def)
  qed
qed

lemma sys_inv_ClickDownload:
  assumes "sys_inv s"
  shows "sys_inv (step ClickDownload s)"
proof (cases "download_enabled (render (comp s))")
  case False
  then show ?thesis using assms by simp
next
  case True
  then have en: "truthy (text (comp s))" "\<not> loading (comp s)" "\<not> isDownloading (comp s)"
    by (simp_all add: render_def download_enabled_def split: if_splits)
  show ?thesis
  proof (cases "originalFile (comp s)")
    case None
    then show ?thesis using assms True by (simp add: call_handleDownload_def)
  next
    case (Some f)
    then show ?thesis
      using assms True en
      by (simp add: call_handleDownload_def exec_download_start sys_inv_def)
  qed
qed

lemma sys_inv_UploadSettled:
  assumes "sys_inv s"
  shows "sys_inv (step (UploadSettled out) s)"
proof (cases "upload_pending s")
  case None
  then show ?thesis using assms by (simp add: resume_handleUpload_def)
next
  case (Some f)
  show ?thesis
  proof (cases "handleUpload_try f out")
    case (Inl m)
    then show ?thesis
      using assms Some
      by (auto simp add: resume_handleUpload_def exec_upload_settle_error sys_inv_def)
  next
    case (Inr acts)
    from upload_settle_success_env [OF Inr, of "comp s"]
    obtain t where "exec (handleUpload_settle f out) (comp s) =
        (comp s)\<lparr>text := t, status := ''Success! Text extracted.'', originalFile := Some f,
          loading := False\<rparr>"
      by blast
    then show ?thesis
      using assms Some
      by (auto simp add: resume_handleUpload_def sys_inv_def)
  qed
qed

lemma sys_inv_DownloadSettled:
  assumes "sys_inv s"
  shows "sys_inv (step (DownloadSettled out u) s)"
proof (cases "download_pending s")
  case None
  then show ?thesis using assms by (simp add: resume_handleDownload_def)
next
  case (Some f)
  obtain m where "exec (handleDownload_settle out u) (comp s) =
      (comp s)\<lparr>status := m, isDownloading := False\<rparr>"
    using exec_download_settle by blast
  then show ?thesis
    using assms Some
    by (auto simp add: resume_handleDownload_def sys_inv_def)
qed

lemma sys_inv_step: "sys_inv s \<Longrightarrow> sys_inv (step e s)"
  by (cases e) (simp_all only: sys_inv_Change sys_inv_ClickDownload sys_inv_UploadSettled
      sys_inv_DownloadSettled)

lemma sys_inv_run: "sys_inv (run evs)"
proof (induction evs rule: rev_induct)
  case Nil
  show ?case by (simp add: run_def sys_inv_init)
next
  case (snoc e evs)
  then show ?case by (simp only: run_snoc sys_inv_step)
qed

lemma last_upload_append_none:
  assumes "\<forall>a \<in> set acts. upload_file_of a = None"
  shows "last_upload (tr @ acts) = last_upload tr"
proof -
  have "fold (\<lambda>a acc. case upload_file_of a of None \<Rightarrow> acc | Some f \<Rightarrow> Some f) acts x = x"
    if "\<forall>a \<in> set acts. upload_file_of a = None" for x
    using that by (induction acts arbitrary: x) simp_all
  then show ?thesis using assms by (simp add: last_upload_def)
qed

lemma last_upload_upload_start:
  "last_upload (tr @ handleUpload_start (Some f)) = Some f"
  by (simp add: last_upload_def handleUpload_start_def)

lemma not_fetch_no_upload: "\<not> is_fetch a \<Longrightarrow> upload_file_of a = None"
  by (cases a) simp_all

lemma download_start_no_upload: "\<forall>a \<in> set (handleDownload_start fo). upload_file_of a = None"
  by (cases fo) (simp_all add: handleDownload_start_def)

lemma files_inv_step:
  assumes "files_inv s"
  shows "files_inv (step e s)"
proof (cases e)
  case (Change fo)
  show ?thesis
  proof (cases "input_disabled (render (comp s)) \<or> fo = None")
    case True
    then show ?thesis using assms Change by (auto simp add: call_handleUpload_def)
  next
    case False
    then obtain f where "fo = Some f" by auto
    then show ?thesis
      using False Change
      by (simp add: call_handleUpload_def files_inv_def last_upload_upload_start
          exec_upload_start)
  qed
next
  case ClickDownload
  show ?thesis
  proof (cases "download_enabled (render (comp s)) \<and> originalFile (comp s) \<noteq> None")
    case False
    then show ?thesis using assms ClickDownload by (auto simp add: call_handleDownload_def)
  next
    case True
    then obtain f where f: "originalFile (comp s) = Some f" by auto
    have "last_upload (trace s @ handleDownload_start (Some f)) = last_upload (trace s)"
      by (rule last_upload_append_none) (rule download_start_no_upload)
    then show ?thesis
      using assms True ClickDownload f
      by (auto simp add: call_handleDownload_def files_inv_def exec_download_start)
  qed
next
  case (UploadSettled out)
  show ?thesis
  proof (cases "upload_pending s")
    case None
    then show ?thesis using assms UploadSettled by (simp add: resume_handleUpload_def)
  next
    case (Some f)
    have tr: "last_upload (trace s @ handleUpload_settle f out) = last_upload (trace s)"
      by (rule last_upload_append_none)
        (simp add: upload_settle_no_fetch not_fetch_no_upload)
    show ?thesis
    proof (cases "handleUpload_try f out")
      case (Inl m)
      then show ?thesis
        using assms Some UploadSettled tr
        by (auto simp add: resume_handleUpload_def exec_upload_settle_error files_inv_def)
    next
      case (Inr acts)
      from upload_settle_success_env [OF Inr, of "comp s"]
      obtain t where "exec (handleUpload_settle f out) (comp s) =
          (comp s)\<lparr>text := t, status := ''Success! Text extracted.'', originalFile := Some f,
            loading := False\<rparr>"
        by blast
      then show ?thesis
        using assms Some UploadSettled tr
        by (auto simp add: resume_handleUpload_def files_inv_def)
    qed
  qed
next
  case (DownloadSettled out u)
  show ?thesis
  proof (cases "download_pending s")
    case None
    then show ?thesis using assms DownloadSettled by (simp add: resume_handleDownload_def)
  next
    case (Some f)
    have tr: "last_upload (trace s @ handleDownload_settle out u) = last_upload (trace s)"
      by (rule last_upload_append_none)
        (simp add: download_settle_no_fetch not_fetch_no_upload)
    obtain m where "exec (handleDownload_settle out u) (comp s) =
        (comp s)\<lparr>status := m, isDownloading := False\<rparr>"
      using exec_download_settle by blast
    then show ?thesis
      using assms Some DownloadSettled tr
      by (auto simp add: resume_handleDownload_def files_inv_def)
  qed
qed

lemma files_inv_run: "files_inv (run evs)"
proof (induction evs rule: rev_induct)
  case Nil
  show ?case by (simp add: run_def files_inv_def init_sys_def init_ui_def)
next
  case (snoc e evs)
  then show ?case by (simp only: run_snoc files_inv_step)
qed

text \<open>How one event changes the extracted text and the remembered file.\<close>

lemma step_text_file:
  "(text (comp (step e s)) = text (comp s) \<and>
      originalFile (comp (step e s)) = originalFile (comp s)) \<or>
   (\<exists>f. e = Change (Some f) \<and> text (comp (step e s)) = JStr [] \<and>
      originalFile (comp (step e s)) = None) \<or>
   (\<exists>f res data. e = UploadSettled (Inr res) \<and> upload_pending s = Some f \<and> res_ok res \<and>
      res_json res = Inr data \<and> get_prop data ''text'' = Inr (text (comp (step e s))) \<and>
      originalFile (comp (step e s)) = Some f)"
proof (cases e)
  case (Change fo)
  then show ?thesis
    by (cases fo) (simp_all add: call_handleUpload_def exec_upload_start)
next
  case ClickDownload
  then show ?thesis
    by (cases "originalFile (comp s)") (simp_all add: call_handleDownload_def exec_download_start)
next
  case (UploadSettled out)
  show ?thesis
  proof (cases "upload_pending s")
    case None
    then show ?thesis using UploadSettled by (simp add: resume_handleUpload_def)
  next
    case (Some f)
    show ?thesis
    proof (cases "handleUpload_try f out")
      case (Inl m)
      then show ?thesis
        using Some UploadSettled
        by (simp add: resume_handleUpload_def exec_upload_settle_error)
    next
      case (Inr acts)
      from upload_settle_success_env [OF Inr, of "comp s"]
      obtain res data t where "out = Inr res" "res_ok res" "res_json res = Inr data"
        "get_prop data ''text'' = Inr t"
        "exec (handleUpload_settle f out) (comp s) =
          (comp s)\<lparr>text := t, status := ''Success! Text extracted.'', originalFile := Some f,
            loading := False\<rparr>"
        by blast
      then show ?thesis
        using Some UploadSettled
        by (simp add: resume_handleUpload_def)
    qed
  qed
next
  case (DownloadSettled out u)
  obtain m where "exec (handleDownload_settle out u) (comp s) =
      (comp s)\<lparr>status := m, isDownloading := False\<rparr>"
    using exec_download_settle by blast
  then show ?thesis
    using DownloadSettled
    by (cases "download_pending s") (simp_all add: resume_handleDownload_def)
qed

section \<open>The claims of the specification\<close>

subsection \<open>C1\<close>

text \<open>
  The fallback message \<^verbatim>\<open>Server error: <status>\<close> on a status outside 200-299:
  \<^verbatim>\<open>handleDownload\<close> reaches it when the body does not parse (line 66 catches the
  rejection of \<^verbatim>\<open>res.json()\<close>), \<^verbatim>\<open>handleUpload\<close> only when the body parses to an
  object without \<^verbatim>\<open>detail\<close>.
\<close>

lemma download_unparseable_fallback:
  "\<not> res_ok res \<Longrightarrow> res_json res = Inl m \<Longrightarrow>
   status (exec (handleDownload_settle (Inr res) u) st) =
     ''Error: Server error: '' @ show_nat (res_status res)"
  by (simp add: handleDownload_settle_def handleDownload_try_def js_or_def)

lemma upload_fallback_without_detail:
  "\<not> res_ok res \<Longrightarrow> res_json res = Inr (JObj kvs) \<Longrightarrow> map_of kvs ''detail'' = None \<Longrightarrow>
   status (exec (handleUpload_settle f (Inr res)) st) =
     ''Error: Server error: '' @ show_nat (res_status res)"
  by (simp add: handleUpload_settle_def handleUpload_try_def js_or_def)

text \<open>
  C1: a response of either endpoint with a status outside 200-299 whose body is not
  parseable JSON gives the status message \<^verbatim>\<open>Error: Server error: <status code>\<close>.
  \<^verbatim>\<open>handleUpload\<close> parses the body at line 29, before it looks at \<^verbatim>\<open>res.ok\<close> and
  without a \<^verbatim>\<open>catch\<close> of its own: for a status 500 with the body
  \<^verbatim>\<open>Internal Server Error\<close> the status message is the message of the parse error, not
  the fallback.
\<close>

theorem C1_upload_unparseable_body:
  "\<not> res_ok \<lparr>res_status = 500, res_json = Inl ''Unexpected token I in JSON at position 0'',
       res_blob = Inr ''Internal Server Error''\<rparr> \<and>
   status (comp (run [Change (Some \<lparr>name = ''sample.pdf'', content = ''%PDF''\<rparr>),
      UploadSettled (Inr \<lparr>res_status = 500,
        res_json = Inl ''Unexpected token I in JSON at position 0'',
        res_blob = Inr ''Internal Server Error''\<rparr>)])) =
     ''Error: Unexpected token I in JSON at position 0'' \<and>
   status (comp (run [Change (Some \<lparr>name = ''sample.pdf'', content = ''%PDF''\<rparr>),
      UploadSettled (Inr \<lparr>res_status = 500,
        res_json = Inl ''Unexpected token I in JSON at position 0'',
        res_blob = Inr ''Internal Server Error''\<rparr>)])) \<noteq>
     ''Error: Server error: 500''"
  by (simp add: run_def init_sys_def init_ui_def render_def call_handleUpload_def
      resume_handleUpload_def handleUpload_start_def handleUpload_settle_def
      handleUpload_try_def res_ok_def)

subsection \<open>C2\<close>

text \<open>
  C2: a response of the text-extraction endpoint with a status in 200-299 whose JSON body
  has the field \<^verbatim>\<open>text\<close> equal to a string S: the component stores S, the text the
  user reads is S (in the text area, which is rendered when S is not empty), and the
  status message is \<^verbatim>\<open>Success! Text extracted.\<close>
\<close>

theorem C2_text_displayed:
  assumes "res_ok res" and "res_json res = Inr (JObj kvs)"
    and "map_of kvs ''text'' = Some (JStr S)"
  shows "text (exec (handleUpload_settle f (Inr res)) st) = JStr S \<and>
         status (exec (handleUpload_settle f (Inr res)) st) = ''Success! Text extracted.'' \<and>
         displayed_text (render (exec (handleUpload_settle f (Inr res)) st)) = S \<and>
         (S \<noteq> [] \<longrightarrow> textarea (render (exec (handleUpload_settle f (Inr res)) st)) = Some S)"
  using assms
  by (simp add: handleUpload_settle_def handleUpload_try_def render_def displayed_text_def)

theorem C2_text_displayed_witness:
  "res_ok \<lparr>res_status = 200,
      res_json = Inr (JObj [(''text'', JStr (''Hello'' @ [CHR 0x0A] @ ''World''))]),
      res_blob = Inr []\<rparr> \<and>
   text (exec (handleUpload_settle \<lparr>name = ''sample.pdf'', content = ''%PDF''\<rparr>
      (Inr \<lparr>res_status = 200,
        res_json = Inr (JObj [(''text'', JStr (''Hello'' @ [CHR 0x0A] @ ''World''))]),
        res_blob = Inr []\<rparr>)) init_ui) = JStr (''Hello'' @ [CHR 0x0A] @ ''World'') \<and>
   status (exec (handleUpload_settle \<lparr>name = ''sample.pdf'', content = ''%PDF''\<rparr>
      (Inr \<lparr>res_status = 200,
        res_json = Inr (JObj [(''text'', JStr (''Hello'' @ [CHR 0x0A] @ ''World''))]),
        res_blob = Inr []\<rparr>)) init_ui) = ''Success! Text extracted.'' \<and>
   textarea (render (exec (handleUpload_settle \<lparr>name = ''sample.pdf'', content = ''%PDF''\<rparr>
      (Inr \<lparr>res_status = 200,
        res_json = Inr (JObj [(''text'', JStr (''Hello'' @ [CHR 0x0A] @ ''World''))]),
        res_blob = Inr []\<rparr>)) init_ui)) = Some (''Hello'' @ [CHR 0x0A] @ ''World'')"
  using C2_text_displayed [of
      "\<lparr>res_status = 200,
        res_json = Inr (JObj [(''text'', JStr (''Hello'' @ [CHR 0x0A] @ ''World''))]),
        res_blob = Inr []\<rparr>"
      "[(''text'', JStr (''Hello'' @ [CHR 0x0A] @ ''World''))]"
      "''Hello'' @ [CHR 0x0A] @ ''World''"
      "\<lparr>name = ''sample.pdf'', content = ''%PDF''\<rparr>" init_ui]
  by (simp add: res_ok_def)

subsection \<open>C3\<close>

text \<open>
  C3: in every state of the component the download button is absent when the extracted
  text is empty (falsy), present when the text is non-empty and neither busy flag is set,
  and can be clicked only when the text is non-empty and neither busy flag is set. For a
  string, truthy is non-empty.
\<close>

theorem C3_download_control:
  "(\<not> truthy (text st) \<longrightarrow> download_button (render st) = None) \<and>
   (truthy (text st) \<and> \<not> loading st \<and> \<not> isDownloading st \<longrightarrow>
      download_button (render st) \<noteq> None) \<and>
   (download_enabled (render st) \<longrightarrow>
      truthy (text st) \<and> \<not> loading st \<and> \<not> isDownloading st) \<and>
   (\<forall>S. text st = JStr S \<longrightarrow> truthy (text st) = (S \<noteq> []))"
  by (simp add: render_def download_enabled_def)

theorem C3_download_control_witness:
  "truthy (text (init_ui\<lparr>text := JStr ''Hello''\<rparr>)) \<and>
   \<not> loading (init_ui\<lparr>text := JStr ''Hello''\<rparr>) \<and>
   \<not> isDownloading (init_ui\<lparr>text := JStr ''Hello''\<rparr>) \<and>
   download_enabled (render (init_ui\<lparr>text := JStr ''Hello''\<rparr>)) \<and>
   download_button (render (init_ui\<lparr>text := JStr ''Hello''\<rparr>)) \<noteq> None \<and>
   \<not> truthy (text init_ui) \<and> download_button (render init_ui) = None"
  using C3_download_control [of "init_ui\<lparr>text := JStr ''Hello''\<rparr>"]
    C3_download_control [of init_ui]
  by (simp add: init_ui_def render_def download_enabled_def)

subsection \<open>C4\<close>

text \<open>
  C4: a response of either endpoint with a status outside 200-299 whose body is a JSON
  object with a non-empty string \<^verbatim>\<open>detail\<close> = X makes the status message
  \<^verbatim>\<open>Error: X\<close>.
\<close>

theorem C4_detail_message:
  assumes "\<not> res_ok res" and "res_json res = Inr (JObj kvs)"
    and "map_of kvs ''detail'' = Some (JStr X)" and "X \<noteq> []"
  shows "status (exec (handleUpload_settle f (Inr res)) st) = ''Error: '' @ X \<and>
         status (exec (handleDownload_settle (Inr res) u) st) = ''Error: '' @ X"
  using assms
  by (simp add: handleUpload_settle_def handleUpload_try_def handleDownload_settle_def
      handleDownload_try_def js_or_def)

theorem C4_detail_message_witness:
  "\<not> res_ok \<lparr>res_status = 415, res_json = Inr (JObj [(''detail'', JStr ''Unsupported file type'')]),
      res_blob = Inr []\<rparr> \<and>
   status (exec (handleUpload_settle \<lparr>name = ''scan.png'', content = ''PNG''\<rparr>
      (Inr \<lparr>res_status = 415, res_json = Inr (JObj [(''detail'', JStr ''Unsupported file type'')]),
      res_blob = Inr []\<rparr>)) init_ui) = ''Error: Unsupported file type'' \<and>
   status (exec (handleDownload_settle 
      (Inr \<lparr>res_status = 415, res_json = Inr (JObj [(''detail'', JStr ''Unsupported file type'')]),
      res_blob = Inr []\<rparr>) ''blob:1'') init_ui) = ''Error: Unsupported file type''"
  using C4_detail_message [of "\<lparr>res_status = 415, res_json = Inr (JObj [(''detail'', JStr ''Unsupported file type'')]),
      res_blob = Inr []\<rparr>" "[(''detail'', JStr ''Unsupported file type'')]" "''Unsupported file type''"
      "\<lparr>name = ''scan.png'', content = ''PNG''\<rparr>" init_ui "''blob:1''"]
  by (simp add: res_ok_def)

subsection \<open>C5\<close>

text \<open>
  C5: \<^verbatim>\<open>handleUpload\<close> on a selected file sets the busy flag, empties the extracted text
  and forgets the remembered file before it issues the request, which is the last thing it
  does before it is suspended; as long as the upload is suspended the flag stays set and
  text and file stay cleared; the handler resets the flag when it is resumed, whatever the
  outcome.
\<close>

theorem C5_upload_clears_first:
  "(\<exists>pre. handleUpload_start (Some f) =
        pre @ [Fetch ''http://localhost:8000/extract-text'' ''file'' f] \<and>
      SetLoading True \<in> set pre \<and> SetText (JStr []) \<in> set pre \<and>
      SetOriginalFile None \<in> set pre \<and> \<not> list_ex is_fetch pre) \<and>
   loading (exec (handleUpload_start (Some f)) st) \<and>
   text (exec (handleUpload_start (Some f)) st) = JStr [] \<and>
   originalFile (exec (handleUpload_start (Some f)) st) = None \<and>
   upload_pending (call_handleUpload (Some f) s) = Some f \<and>
   (upload_pending (run evs) \<noteq> None \<longrightarrow>
      loading (comp (run evs)) \<and> text (comp (run evs)) = JStr [] \<and>
      originalFile (comp (run evs)) = None) \<and>
   \<not> loading (exec (handleUpload_settle f out) st)"
proof -
  have order: "\<exists>pre. handleUpload_start (Some f) =
        pre @ [Fetch ''http://localhost:8000/extract-text'' ''file'' f] \<and>
      SetLoading True \<in> set pre \<and> SetText (JStr []) \<in> set pre \<and>
      SetOriginalFile None \<in> set pre \<and> \<not> list_ex is_fetch pre"
    by (rule exI [of _ "[SetLoading True, SetStatus (''Processing '' @ name f @ ''...''),
          SetText (JStr []), SetOriginalFile None]"])
      (simp add: handleUpload_start_def)
  have during: "upload_pending (run evs) \<noteq> None \<longrightarrow>
      loading (comp (run evs)) \<and> text (comp (run evs)) = JStr [] \<and>
      originalFile (comp (run evs)) = None"
    using sys_inv_run [of evs] by (simp add: sys_inv_def)
  have after: "\<not> loading (exec (handleUpload_settle f out) st)"
    by (simp add: handleUpload_settle_def exec_append)
  show ?thesis
    using order during after
    by (simp add: exec_upload_start call_handleUpload_def)
qed

theorem C5_upload_clears_first_witness:
  "upload_pending (run [Change (Some \<lparr>name = ''sample.pdf'', content = ''%PDF''\<rparr>), UploadSettled (Inr \<lparr>res_status = 200, res_json = Inr (JObj [(''text'', JStr ''Hello'')]), res_blob = Inr []\<rparr>), Change (Some \<lparr>name = ''sample.pdf'', content = ''%PDF''\<rparr>)]) \<noteq> None \<and>
   loading (comp (run [Change (Some \<lparr>name = ''sample.pdf'', content = ''%PDF''\<rparr>), UploadSettled (Inr \<lparr>res_status = 200, res_json = Inr (JObj [(''text'', JStr ''Hello'')]), res_blob = Inr []\<rparr>), Change (Some \<lparr>name = ''sample.pdf'', content = ''%PDF''\<rparr>)])) \<and>
   text (comp (run [Change (Some \<lparr>name = ''sample.pdf'', content = ''%PDF''\<rparr>), UploadSettled (Inr \<lparr>res_status = 200, res_json = Inr (JObj [(''text'', JStr ''Hello'')]), res_blob = Inr []\<rparr>), Change (Some \<lparr>name = ''sample.pdf'', content = ''%PDF''\<rparr>)])) = JStr [] \<and>
   originalFile (comp (run [Change (Some \<lparr>name = ''sample.pdf'', content = ''%PDF''\<rparr>), UploadSettled (Inr \<lparr>res_status = 200, res_json = Inr (JObj [(''text'', JStr ''Hello'')]), res_blob = Inr []\<rparr>), Change (Some \<lparr>name = ''sample.pdf'', content = ''%PDF''\<rparr>)])) = None"
  using C5_upload_clears_first [of "\<lparr>name = ''sample.pdf'', content = ''%PDF''\<rparr>" init_ui init_sys
      "[Change (Some \<lparr>name = ''sample.pdf'', content = ''%PDF''\<rparr>), UploadSettled (Inr \<lparr>res_status = 200, res_json = Inr (JObj [(''text'', JStr ''Hello'')]), res_blob = Inr []\<rparr>), Change (Some \<lparr>name = ''sample.pdf'', content = ''%PDF''\<rparr>)]" "Inr \<lparr>res_status = 200, res_json = Inr (JObj [(''text'', JStr ''Hello'')]), res_blob = Inr []\<rparr>"]
  by (simp add: run_def init_sys_def init_ui_def render_def download_enabled_def call_handleUpload_def resume_handleUpload_def call_handleDownload_def resume_handleDownload_def handleUpload_start_def handleUpload_settle_def handleUpload_try_def handleDownload_start_def handleDownload_settle_def handleDownload_try_def res_ok_def)

subsection \<open>C6\<close>

text \<open>
  C6: an upload or a download whose \<^verbatim>\<open>try\<close> block throws an error of message m (as it
  does on every status outside 200-299 and on every rejected request) ends with the
  status \<^verbatim>\<open>Error: m\<close>, which starts with \<^verbatim>\<open>Error:\<close>, and with its busy flag reset;
  it issues no further request. In the event loop the file input is enabled again
  afterwards, nothing is left suspended, and after a failed download the download button
  can be clicked again.
\<close>

theorem C6_errors_terminal:
  "(handleUpload_try f out = Inl m \<longrightarrow>
      status (exec (handleUpload_settle f out) st) = ''Error: '' @ m \<and>
      starts_with (status (exec (handleUpload_settle f out) st)) ''Error:'' \<and>
      \<not> loading (exec (handleUpload_settle f out) st) \<and>
      \<not> list_ex is_fetch (handleUpload_settle f out)) \<and>
   (handleDownload_try out u = Inl m \<longrightarrow>
      status (exec (handleDownload_settle out u) st) = ''Error: '' @ m \<and>
      starts_with (status (exec (handleDownload_settle out u) st)) ''Error:'' \<and>
      \<not> isDownloading (exec (handleDownload_settle out u) st) \<and>
      \<not> list_ex is_fetch (handleDownload_settle out u)) \<and>
   (\<not> res_ok res \<longrightarrow>
      (\<exists>m'. handleUpload_try f (Inr res) = Inl m') \<and>
      (\<exists>m'. handleDownload_try (Inr res) u = Inl m')) \<and>
   handleUpload_try f (Inl m) = Inl m \<and>
   handleDownload_try (Inl m) u = Inl m \<and>
   (upload_pending (run evs) = Some f \<and> handleUpload_try f out = Inl m \<longrightarrow>
      \<not> input_disabled (render (comp (step (UploadSettled out) (run evs)))) \<and>
      upload_pending (step (UploadSettled out) (run evs)) = None \<and>
      download_pending (step (UploadSettled out) (run evs)) = None) \<and>
   (download_pending (run evs') = Some f \<and> handleDownload_try out u = Inl m \<longrightarrow>
      \<not> input_disabled (render (comp (step (DownloadSettled out u) (run evs')))) \<and>
      download_enabled (render (comp (step (DownloadSettled out u) (run evs')))) \<and>
      upload_pending (step (DownloadSettled out u) (run evs')) = None \<and>
      download_pending (step (DownloadSettled out u) (run evs')) = None)"
proof -
  have up: "handleUpload_try f out = Inl m \<longrightarrow>
      status (exec (handleUpload_settle f out) st) = ''Error: '' @ m \<and>
      starts_with (status (exec (handleUpload_settle f out) st)) ''Error:'' \<and>
      \<not> loading (exec (handleUpload_settle f out) st) \<and>
      \<not> list_ex is_fetch (handleUpload_settle f out)"
    by (simp add: handleUpload_settle_def starts_with_def)
  have down: "handleDownload_try out u = Inl m \<longrightarrow>
      status (exec (handleDownload_settle out u) st) = ''Error: '' @ m \<and>
      starts_with (status (exec (handleDownload_settle out u) st)) ''Error:'' \<and>
      \<not> isDownloading (exec (handleDownload_settle out u) st) \<and>
      \<not> list_ex is_fetch (handleDownload_settle out u)"
    by (simp add: handleDownload_settle_def starts_with_def)
  have non2xx: "\<not> res_ok res \<longrightarrow>
      (\<exists>m'. handleUpload_try f (Inr res) = Inl m') \<and>
      (\<exists>m'. handleDownload_try (Inr res) u = Inl m')"
    by (simp add: handleUpload_try_def handleDownload_try_def split: sum.splits)
  have rejected: "handleUpload_try f (Inl m) = Inl m \<and> handleDownload_try (Inl m) u = Inl m"
    by (simp add: handleUpload_try_def handleDownload_try_def)
  have retry_up: "upload_pending (run evs) = Some f \<and> handleUpload_try f out = Inl m \<longrightarrow>
      \<not> input_disabled (render (comp (step (UploadSettled out) (run evs)))) \<and>
      upload_pending (step (UploadSettled out) (run evs)) = None \<and>
      download_pending (step (UploadSettled out) (run evs)) = None"
    using sys_inv_run [of evs]
    by (auto simp add: sys_inv_def resume_handleUpload_def exec_upload_settle_error render_def)
  have retry_down: "download_pending (run evs') = Some f \<and> handleDownload_try out u = Inl m \<longrightarrow>
      \<not> input_disabled (render (comp (step (DownloadSettled out u) (run evs')))) \<and>
      download_enabled (render (comp (step (DownloadSettled out u) (run evs')))) \<and>
      upload_pending (step (DownloadSettled out u) (run evs')) = None \<and>
      download_pending (step (DownloadSettled out u) (run evs')) = None"
  proof -
    obtain m' where "exec (handleDownload_settle out u) (comp (run evs')) =
        (comp (run evs'))\<lparr>status := m', isDownloading := False\<rparr>"
      using exec_download_settle by blast
    then show ?thesis
      using sys_inv_run [of evs']
      by (auto simp add: sys_inv_def resume_handleDownload_def render_def download_enabled_def)
  qed
  show ?thesis
    using up down non2xx rejected retry_up retry_down by blast
qed

theorem C6_errors_terminal_witness:
  "handleUpload_try \<lparr>name = ''sample.pdf'', content = ''%PDF''\<rparr> (Inl ''Failed to fetch'') = Inl ''Failed to fetch'' \<and>
   handleDownload_try (Inl ''Failed to fetch'') ''blob:1'' = Inl ''Failed to fetch'' \<and>
   \<not> res_ok \<lparr>res_status = 500, res_json = Inr (JObj []), res_blob = Inr []\<rparr> \<and>
   upload_pending (run [Change (Some \<lparr>name = ''sample.pdf'', content = ''%PDF''\<rparr>)]) = Some \<lparr>name = ''sample.pdf'', content = ''%PDF''\<rparr> \<and>
   download_pending (run [Change (Some \<lparr>name = ''sample.pdf'', content = ''%PDF''\<rparr>), UploadSettled (Inr \<lparr>res_status = 200, res_json = Inr (JObj [(''text'', JStr ''Hello'')]), res_blob = Inr []\<rparr>), ClickDownload]) = Some \<lparr>name = ''sample.pdf'', content = ''%PDF''\<rparr> \<and>
   status (exec (handleUpload_settle \<lparr>name = ''sample.pdf'', content = ''%PDF''\<rparr> (Inl ''Failed to fetch'')) init_ui) = ''Error: Failed to fetch'' \<and>
   status (exec (handleDownload_settle (Inl ''Failed to fetch'') ''blob:1'') init_ui) = ''Error: Failed to fetch'' \<and>
   \<not> input_disabled (render (comp (step (UploadSettled (Inl ''Failed to fetch'')) (run [Change (Some \<lparr>name = ''sample.pdf'', content = ''%PDF''\<rparr>)])))) \<and>
   download_enabled (render (comp (step (DownloadSettled (Inl ''Failed to fetch'') ''blob:1'')
      (run [Change (Some \<lparr>name = ''sample.pdf'', content = ''%PDF''\<rparr>), UploadSettled (Inr \<lparr>res_status = 200, res_json = Inr (JObj [(''text'', JStr ''Hello'')]), res_blob = Inr []\<rparr>), ClickDownload]))))"
  using C6_errors_terminal [of "\<lparr>name = ''sample.pdf'', content = ''%PDF''\<rparr>" "Inl ''Failed to fetch''" "''Failed to fetch''" init_ui
      "''blob:1''" "\<lparr>res_status = 500, res_json = Inr (JObj []), res_blob = Inr []\<rparr>" "[Change (Some \<lparr>name = ''sample.pdf'', content = ''%PDF''\<rparr>)]"
      "[Change (Some \<lparr>name = ''sample.pdf'', content = ''%PDF''\<rparr>), UploadSettled (Inr \<lparr>res_status = 200, res_json = Inr (JObj [(''text'', JStr ''Hello'')]), res_blob = Inr []\<rparr>), ClickDownload]"]
  by (simp add: run_def init_sys_def init_ui_def render_def download_enabled_def call_handleUpload_def resume_handleUpload_def call_handleDownload_def resume_handleDownload_def handleUpload_start_def handleUpload_settle_def handleUpload_try_def handleDownload_start_def handleDownload_settle_def handleDownload_try_def res_ok_def)

subsection \<open>C7\<close>

text \<open>
  C7: \<^verbatim>\<open>handleDownload\<close> with no remembered file does nothing: the five cells, the
  suspended handlers and the trace (so the requests issued) are as before.
\<close>

theorem C7_download_without_file:
  assumes "originalFile (comp s) = None"
  shows "call_handleDownload s = s \<and> handleDownload_start (originalFile (comp s)) = []"
  using assms by (simp add: call_handleDownload_def handleDownload_start_def)

theorem C7_download_without_file_witness:
  "originalFile (comp init_sys) = None \<and> call_handleDownload init_sys = init_sys \<and>
   handleDownload_start (originalFile (comp init_sys)) = []"
  using C7_download_without_file [of init_sys]
  by (simp add: init_sys_def init_ui_def)

subsection \<open>C8\<close>

text \<open>
  C8: a download, in its first part and when it is resumed with any outcome, leaves the
  extraction flag, the extracted text and the remembered file as they are; it sets its own
  flag at the start and resets it at the end.
\<close>

theorem C8_download_frame:
  "loading (exec (handleDownload_start fo) st) = loading st \<and>
   text (exec (handleDownload_start fo) st) = text st \<and>
   originalFile (exec (handleDownload_start fo) st) = originalFile st \<and>
   loading (exec (handleDownload_settle out u) st) = loading st \<and>
   text (exec (handleDownload_settle out u) st) = text st \<and>
   originalFile (exec (handleDownload_settle out u) st) = originalFile st \<and>
   isDownloading (exec (handleDownload_start (Some f)) st) \<and>
   \<not> isDownloading (exec (handleDownload_settle out u) st) \<and>
   loading (comp (call_handleDownload s)) = loading (comp s) \<and>
   text (comp (call_handleDownload s)) = text (comp s) \<and>
   originalFile (comp (call_handleDownload s)) = originalFile (comp s) \<and>
   loading (comp (resume_handleDownload out u s)) = loading (comp s) \<and>
   text (comp (resume_handleDownload out u s)) = text (comp s) \<and>
   originalFile (comp (resume_handleDownload out u s)) = originalFile (comp s)"
proof -
  obtain m where settle: "exec (handleDownload_settle out u) st = st\<lparr>status := m, isDownloading := False\<rparr>"
    using exec_download_settle by blast
  obtain m' where settle': "exec (handleDownload_settle out u) (comp s) = (comp s)\<lparr>status := m', isDownloading := False\<rparr>"
    using exec_download_settle by blast
  have start: "loading (exec (handleDownload_start fo) st) = loading st \<and>
   text (exec (handleDownload_start fo) st) = text st \<and>
   originalFile (exec (handleDownload_start fo) st) = originalFile st"
    by (cases fo) (simp_all add: exec_download_start, simp add: handleDownload_start_def)
  show ?thesis
    using start
    by (simp add: settle settle' exec_download_start call_handleDownload_def resume_handleDownload_def
        split: option.splits)
qed

subsection \<open>C9\<close>

text \<open>
  C9: a download that succeeds (status in 200-299, \<^verbatim>\<open>res.blob()\<close> fulfilled with b) does
  exactly this, in this order and in one run: it creates the object URL u for b, builds the
  anchor with \<^verbatim>\<open>href\<close> u and \<^verbatim>\<open>download\<close> \<^verbatim>\<open>extracted_text.docx\<close>, clicks it, removes it,
  revokes u, sets the success status and resets its flag.
\<close>

theorem C9_download_order:
  assumes "res_ok res" and "res_blob res = Inr b"
  shows "handleDownload_settle (Inr res) u =
     [CreateObjectURL b u, CreateElement ''a'', SetHref u,
      SetDownload ''extracted_text.docx'', AppendChild, Click, Remove,
      RevokeObjectURL u, SetStatus ''Success! File downloaded.'', SetIsDownloading False]"
  using assms by (simp add: handleDownload_settle_def handleDownload_try_def)

theorem C9_download_order_witness:
  "res_ok \<lparr>res_status = 200, res_json = Inl ''Unexpected token P in JSON at position 0'', res_blob = Inr ''PK''\<rparr> \<and>
   handleDownload_settle (Inr \<lparr>res_status = 200, res_json = Inl ''Unexpected token P in JSON at position 0'', res_blob = Inr ''PK''\<rparr>) ''blob:1'' =
     [CreateObjectURL ''PK'' ''blob:1'', CreateElement ''a'', SetHref ''blob:1'',
      SetDownload ''extracted_text.docx'', AppendChild, Click, Remove,
      RevokeObjectURL ''blob:1'', SetStatus ''Success! File downloaded.'',
      SetIsDownloading False]"
  using C9_download_order [of "\<lparr>res_status = 200, res_json = Inl ''Unexpected token P in JSON at position 0'', res_blob = Inr ''PK''\<rparr>" "''PK''" "''blob:1''"]
  by (simp add: res_ok_def)

subsection \<open>C10\<close>

text \<open>
  C10: in every reachable state a non-empty (truthy) extracted text comes with a remembered
  file, which is the file of the latest text-extraction request; while the download button
  is rendered the guard of \<^verbatim>\<open>handleDownload\<close> does not fire; and an event changes text or
  file only by clearing both (the start of an upload) or by setting both on the success of
  the suspended upload, the text from its response and the file from its request.
\<close>

theorem C10_text_has_its_file:
  "(truthy (text (comp (run evs))) \<longrightarrow>
      (\<exists>f. originalFile (comp (run evs)) = Some f \<and> last_upload (trace (run evs)) = Some f)) \<and>
   (download_button (render (comp (run evs))) \<noteq> None \<longrightarrow>
      originalFile (comp (run evs)) \<noteq> None \<and>
      handleDownload_start (originalFile (comp (run evs))) \<noteq> []) \<and>
   ((text (comp (step e (run evs))) = text (comp (run evs)) \<and>
       originalFile (comp (step e (run evs))) = originalFile (comp (run evs))) \<or>
    (\<exists>f. e = Change (Some f) \<and> text (comp (step e (run evs))) = JStr [] \<and>
       originalFile (comp (step e (run evs))) = None) \<or>
    (\<exists>f res data. e = UploadSettled (Inr res) \<and> upload_pending (run evs) = Some f \<and>
       last_upload (trace (run evs)) = Some f \<and> res_ok res \<and> res_json res = Inr data \<and>
       get_prop data ''text'' = Inr (text (comp (step e (run evs)))) \<and>
       originalFile (comp (step e (run evs))) = Some f))"
proof -
  have has_file: "truthy (text (comp (run evs))) \<longrightarrow> originalFile (comp (run evs)) \<noteq> None"
    using sys_inv_run [of evs] by (simp add: sys_inv_def)
  have same: "\<forall>f. originalFile (comp (run evs)) = Some f \<longrightarrow> last_upload (trace (run evs)) = Some f"
    and pend: "\<forall>f. upload_pending (run evs) = Some f \<longrightarrow> last_upload (trace (run evs)) = Some f"
    using files_inv_run [of evs] by (simp_all add: files_inv_def)
  have first: "truthy (text (comp (run evs))) \<longrightarrow>
      (\<exists>f. originalFile (comp (run evs)) = Some f \<and> last_upload (trace (run evs)) = Some f)"
    using has_file same by auto
  have guard: "download_button (render (comp (run evs))) \<noteq> None \<longrightarrow>
      originalFile (comp (run evs)) \<noteq> None \<and>
      handleDownload_start (originalFile (comp (run evs))) \<noteq> []"
    using has_file by (auto simp add: render_def handleDownload_start_def split: if_splits)
  show ?thesis
    using first guard step_text_file [of e "run evs"] pend by blast
qed

theorem C10_text_has_its_file_witness:
  "truthy (text (comp (run [Change (Some \<lparr>name = ''sample.pdf'', content = ''%PDF''\<rparr>), UploadSettled (Inr \<lparr>res_status = 200, res_json = Inr (JObj [(''text'', JStr ''Hello'')]), res_blob = Inr []\<rparr>)]))) \<and>
   download_button (render (comp (run [Change (Some \<lparr>name = ''sample.pdf'', content = ''%PDF''\<rparr>), UploadSettled (Inr \<lparr>res_status = 200, res_json = Inr (JObj [(''text'', JStr ''Hello'')]), res_blob = Inr []\<rparr>)]))) \<noteq> None \<and>
   originalFile (comp (run [Change (Some \<lparr>name = ''sample.pdf'', content = ''%PDF''\<rparr>), UploadSettled (Inr \<lparr>res_status = 200, res_json = Inr (JObj [(''text'', JStr ''Hello'')]), res_blob = Inr []\<rparr>)])) = Some \<lparr>name = ''sample.pdf'', content = ''%PDF''\<rparr> \<and>
   last_upload (trace (run [Change (Some \<lparr>name = ''sample.pdf'', content = ''%PDF''\<rparr>), UploadSettled (Inr \<lparr>res_status = 200, res_json = Inr (JObj [(''text'', JStr ''Hello'')]), res_blob = Inr []\<rparr>)])) = Some \<lparr>name = ''sample.pdf'', content = ''%PDF''\<rparr>"
  using C10_text_has_its_file [of "[Change (Some \<lparr>name = ''sample.pdf'', content = ''%PDF''\<rparr>), UploadSettled (Inr \<lparr>res_status = 200, res_json = Inr (JObj [(''text'', JStr ''Hello'')]), res_blob = Inr []\<rparr>)]" ClickDownload]
  by (simp add: run_def init_sys_def init_ui_def render_def download_enabled_def call_handleUpload_def resume_handleUpload_def call_handleDownload_def resume_handleDownload_def handleUpload_start_def handleUpload_settle_def handleUpload_try_def handleDownload_start_def handleDownload_settle_def handleDownload_try_def res_ok_def)

end
